theory Spec2Isabelle
  imports Complex_Main
begin

section \<open>Python text\<close>

text \<open>
  A Python \<open>str\<close> is a sequence of Unicode code points, and the replies of \<open>app.py\<close>
  contain code points beyond Latin-1 (the rupee sign, the em dash), so text is a list of
  code points, not a list of bytes.  \<open>str_lit\<close> reads an ASCII literal.
\<close>

type_synonym codepoint = nat
type_synonym pystr = "codepoint list"

definition str_lit :: "string \<Rightarrow> pystr" where
  "str_lit s = map of_char s"

text \<open>
  The case mapping and the alphanumeric classification of the code points from 128 on come
  from the Unicode database of the interpreter, which is no part of the repository: they
  are a parameter of the model.  \<open>tolower_full s i\<close> is the lower-casing of the
  code point at index \<open>i\<close> of \<open>s\<close> (up to three code points, and dependent on the
  neighbours for the Greek capital sigma); \<open>isalnum c\<close> is \<open>str.isalnum\<close> on the
  one-character string \<open>c\<close>.  ASCII is written out below.
\<close>

record unicode_db =
  tolower_full :: "pystr \<Rightarrow> nat \<Rightarrow> pystr"
  isalnum :: "codepoint \<Rightarrow> bool"

definition ascii_lower :: "codepoint \<Rightarrow> codepoint" where
  "ascii_lower c = (if 65 \<le> c \<and> c \<le> 90 then c + 32 else c)"

definition lower_at :: "unicode_db \<Rightarrow> pystr \<Rightarrow> nat \<Rightarrow> pystr" where
  "lower_at U s i = (if s ! i < 128 then [ascii_lower (s ! i)] else tolower_full U s i)"

text \<open>\<open>str.lower()\<close>.\<close>

definition lower :: "unicode_db \<Rightarrow> pystr \<Rightarrow> pystr" where
  "lower U s = concat (map (lower_at U s) [0..<length s])"

text \<open>
  \<open>str.isspace\<close> on one code point: the white space of the Unicode database (bidirectional
  type WS, B or S, or category Zs), a fixed set of 29 code points.
\<close>

definition isspace :: "codepoint \<Rightarrow> bool" where
  "isspace c = ((9 \<le> c \<and> c \<le> 13) \<or> (28 \<le> c \<and> c \<le> 32) \<or> c = 133 \<or> c = 160
     \<or> c = 5760 \<or> (8192 \<le> c \<and> c \<le> 8202) \<or> c = 8232 \<or> c = 8233 \<or> c = 8239
     \<or> c = 8287 \<or> c = 12288)"

text \<open>\<open>str.strip()\<close> with no argument: leading and trailing white space removed.\<close>

definition strip :: "pystr \<Rightarrow> pystr" where
  "strip s = rev (dropWhile isspace (rev (dropWhile isspace s)))"

section \<open>Regular expressions\<close>

text \<open>
  The patterns of \<open>app.py\<close> are built from literals, one character set (\<open>[- ]\<close>),
  alternation, concatenation and the word boundary \<open>\b\<close>.  A group \<open>(...)\<close> only
  captures, which \<open>re.search\<close> used as a truth value does not observe.
\<close>

datatype regex =
  Lit pystr
  | Chars pystr
  | WordB
  | Alt "regex list"
  | Seq "regex list"

text \<open>
  \<open>\w\<close> of a \<open>str\<close> pattern: alphanumeric in the Unicode database, or the underscore.
\<close>

definition is_word :: "unicode_db \<Rightarrow> codepoint \<Rightarrow> bool" where
  "is_word U c =
     (if c < 128 then (48 \<le> c \<and> c \<le> 57) \<or> (65 \<le> c \<and> c \<le> 90) \<or> (97 \<le> c \<and> c \<le> 122) \<or> c = 95
      else isalnum U c)"

text \<open>
  \<open>\b\<close> at position \<open>i\<close>: exactly one of the characters before and after the position
  is a word character; beyond either end of the text there is no word character.
\<close>

definition word_boundary :: "unicode_db \<Rightarrow> pystr \<Rightarrow> nat \<Rightarrow> bool" where
  "word_boundary U s i =
     (let that = (0 < i \<and> i \<le> length s \<and> is_word U (s ! (i - 1)));
          this = (i < length s \<and> is_word U (s ! i))
      in this \<noteq> that)"

text \<open>
  \<open>match_ends U r s i\<close>: the positions at which a match of \<open>r\<close> that starts at position
  \<open>i\<close> of \<open>s\<close> can end, in the order in which a backtracking matcher tries them.
\<close>

fun match_ends :: "unicode_db \<Rightarrow> regex \<Rightarrow> pystr \<Rightarrow> nat \<Rightarrow> nat list" where
  "match_ends U (Lit w) s i = (if take (length w) (drop i s) = w then [i + length w] else [])"
| "match_ends U (Chars cs) s i = (if i < length s \<and> s ! i \<in> set cs then [i + 1] else [])"
| "match_ends U WordB s i = (if word_boundary U s i then [i] else [])"
| "match_ends U (Alt rs) s i = concat (map (\<lambda>r. match_ends U r s i) rs)"
| "match_ends U (Seq []) s i = [i]"
| "match_ends U (Seq (r # rs)) s i = concat (map (match_ends U (Seq rs) s) (match_ends U r s i))"

text \<open>
  \<open>re.search(r, s)\<close> as a truth value: a match object (always true) when the pattern
  matches from some start position \<open>0 \<dots> len(s)\<close>, else \<open>None\<close>.
\<close>

definition re_search :: "unicode_db \<Rightarrow> regex \<Rightarrow> pystr \<Rightarrow> bool" where
  "re_search U r s = list_ex (\<lambda>i. match_ends U r s i \<noteq> []) [0..<length s + 1]"

text \<open>The shape \<open>\b(w1|w2|...)\b\<close> shared by every pattern of the file.\<close>

definition words :: "regex list \<Rightarrow> regex" where
  "words alts = Seq [WordB, Alt alts, WordB]"

section \<open>Intent detection\<close>

text \<open>
  The dictionary \<open>{"intent": ..., "confidence": ...}\<close>.  The confidences are the decimal
  literals of the source, as rationals.
\<close>

record intent_info =
  intent :: pystr
  confidence :: rat

definition network_re :: regex where
  "network_re = words [Lit (str_lit ''signal''), Lit (str_lit ''network''),
     Lit (str_lit ''no service''), Lit (str_lit ''coverage''), Lit (str_lit ''latency''),
     Lit (str_lit ''slow data''), Lit (str_lit ''dropped call'')]"

definition account_re :: regex where
  "account_re = words [Lit (str_lit ''balance''), Lit (str_lit ''plan''),
     Lit (str_lit ''data left''), Lit (str_lit ''recharge''),
     Seq [Lit (str_lit ''top''), Chars (str_lit ''- ''), Lit (str_lit ''up'')],
     Lit (str_lit ''bill'')]"

definition symptom_re :: regex where
  "symptom_re = words [Lit (str_lit ''symptom''), Lit (str_lit ''fever''),
     Lit (str_lit ''cough''), Lit (str_lit ''pain''), Lit (str_lit ''headache''),
     Lit (str_lit ''nausea''), Lit (str_lit ''shortness of breath'')]"

definition appointment_re :: regex where
  "appointment_re = words [Lit (str_lit ''appointment''), Lit (str_lit ''book appointment''),
     Lit (str_lit ''doctor''), Lit (str_lit ''visit''), Lit (str_lit ''schedule'')]"

definition greeting_re :: regex where
  "greeting_re = words [Lit (str_lit ''hi''), Lit (str_lit ''hello''), Lit (str_lit ''hey''),
     Lit (str_lit ''good morning''), Lit (str_lit ''good evening'')]"

definition thanks_re :: regex where
  "thanks_re = words [Lit (str_lit ''thank''), Lit (str_lit ''thanks'')]"

definition detect_intent :: "unicode_db \<Rightarrow> pystr \<Rightarrow> intent_info" where
  "detect_intent U txt =
     (let t = strip (lower U txt) in
      if re_search U network_re t then \<lparr>intent = str_lit ''network_issue'', confidence = 9 / 10\<rparr>
      else if re_search U account_re t then \<lparr>intent = str_lit ''account_query'', confidence = 9 / 10\<rparr>
      else if re_search U symptom_re t then \<lparr>intent = str_lit ''symptom_check'', confidence = 9 / 10\<rparr>
      else if re_search U appointment_re t then \<lparr>intent = str_lit ''book_appointment'', confidence = 9 / 10\<rparr>
      else if re_search U greeting_re t then \<lparr>intent = str_lit ''greeting'', confidence = 95 / 100\<rparr>
      else if re_search U thanks_re t then \<lparr>intent = str_lit ''thanks'', confidence = 95 / 100\<rparr>
      else \<lparr>intent = str_lit ''fallback'', confidence = 5 / 10\<rparr>)"

text \<open>
  The matching policy in the words of the specification: an ordered list of (pattern,
  label, confidence) rules; the first rule whose pattern matches the lower-cased, trimmed
  input gives the result, and \<open>fallback\<close> with confidence 0.5 when none does.
\<close>

definition rules :: "(regex \<times> pystr \<times> rat) list" where
  "rules =
     [(network_re, str_lit ''network_issue'', 9 / 10),
      (account_re, str_lit ''account_query'', 9 / 10),
      (symptom_re, str_lit ''symptom_check'', 9 / 10),
      (appointment_re, str_lit ''book_appointment'', 9 / 10),
      (greeting_re, str_lit ''greeting'', 95 / 100),
      (thanks_re, str_lit ''thanks'', 95 / 100)]"

definition classify_spec :: "unicode_db \<Rightarrow> pystr \<Rightarrow> intent_info" where
  "classify_spec U txt =
     (case find (\<lambda>(p, l, c). re_search U p (strip (lower U txt))) rules of
        Some (p, l, c) \<Rightarrow> \<lparr>intent = l, confidence = c\<rparr>
      | None \<Rightarrow> \<lparr>intent = str_lit ''fallback'', confidence = 1 / 2\<rparr>)"

section \<open>Python values\<close>

text \<open>
  The values that \<open>json.loads\<close> can return and that a context can hold.  Floating-point
  numbers are not interpreted: \<open>pyfloat\<close> is left abstract.  A dictionary with text keys
  is an association list in insertion order.
\<close>

typedecl pyfloat

datatype pyval =
  PNone
  | PBool bool
  | PInt int
  | PFloat pyfloat
  | PStr pystr
  | PList "pyval list"
  | PDict "(pystr \<times> pyval) list"

type_synonym ctx = "(pystr \<times> pyval) list"

text \<open>The exceptions that the modelled operations can raise.\<close>

datatype error =
  DatabaseError
  | AttributeError
  | JSONDecodeError
  | ConnectionError

subsection \<open>Dictionaries as association lists\<close>

text \<open>
  \<open>d[k] = v\<close> replaces the value of a key that is present, in place, and appends a new
  key at the end; \<open>d.pop(k, None)\<close> removes the key and never raises; \<open>d.get(k)\<close> is
  \<open>map_of\<close>.
\<close>

fun dict_set :: "('k \<times> 'v) list \<Rightarrow> 'k \<Rightarrow> 'v \<Rightarrow> ('k \<times> 'v) list" where
  "dict_set [] k v = [(k, v)]"
| "dict_set ((k', v') # d) k v = (if k' = k then (k', v) # d else (k', v') # dict_set d k v)"

fun dict_pop :: "('k \<times> 'v) list \<Rightarrow> 'k \<Rightarrow> ('k \<times> 'v) list" where
  "dict_pop [] k = []"
| "dict_pop ((k', v') # d) k = (if k' = k then dict_pop d k else (k', v') # dict_pop d k)"

section \<open>Intent handlers\<close>

definition no_signal_re :: regex where
  "no_signal_re = words [Lit (str_lit ''no service''), Lit (str_lit ''no signal''),
     Lit (str_lit ''no network'')]"

definition slow_re :: regex where
  "slow_re = words [Lit (str_lit ''slow''), Lit (str_lit ''latency''), Lit (str_lit ''slow data'')]"

definition handle_network_issue :: "unicode_db \<Rightarrow> pystr \<Rightarrow> ctx \<Rightarrow> pystr" where
  "handle_network_issue U txt c =
     (if re_search U no_signal_re (lower U txt) then
        str_lit ''I understand you're seeing no network signal. Try: 1) toggle airplane mode off/on, ''
        @ str_lit ''2) restart your device, 3) check for network outages in your area. ''
        @ str_lit ''If the problem persists, reply with your area PIN or 'outage' to check further.''
      else if re_search U slow_re (lower U txt) then
        str_lit ''Slow data can be caused by congestion. Try switching between 4G/3G, ''
        @ str_lit ''closing background apps, or running a speed test. Want me to run a quick diagnostic?''
      else
        str_lit ''Can you describe the network problem (e.g., no signal, slow data, dropped calls)?'')"

text \<open>The mock balance: the rupee sign (U+20B9) and \<open>199.50\<close>.\<close>

definition fake_balance :: pystr where
  "fake_balance = [8377] @ str_lit ''199.50''"

definition handle_account_query :: "pystr \<Rightarrow> ctx \<Rightarrow> pystr" where
  "handle_account_query txt c =
     str_lit ''Your current prepaid balance is '' @ fake_balance
     @ str_lit ''. Would you like to recharge now?''"

definition fever_re :: regex where
  "fever_re = words [Lit (str_lit ''fever''), Lit (str_lit ''temperature'')]"

definition serious_re :: regex where
  "serious_re = words [Lit (str_lit ''chest pain''), Lit (str_lit ''shortness of breath''),
     Lit (str_lit ''severe''), Lit (str_lit ''faint'')]"

text \<open>The degree sign of the first reply is U+00B0.\<close>

definition handle_symptom_check :: "unicode_db \<Rightarrow> pystr \<Rightarrow> ctx \<Rightarrow> pystr" where
  "handle_symptom_check U txt c =
     (if re_search U fever_re (lower U txt) then
        str_lit ''I see you mentioned fever. If temperature > 38'' @ [176]
        @ str_lit ''C or you have breathing difficulty, ''
        @ str_lit ''seek urgent care. For mild fever, rest, fluids and paracetamol are common. ''
        @ str_lit ''Do you have other symptoms?''
      else if re_search U serious_re (lower U txt) then
        str_lit ''These symptoms can be serious. If you are in immediate danger, please call emergency services now.''
      else
        str_lit ''Tell me more about your symptoms (how long, severity). I can help suggest next steps or book a tele-appointment.'')"

definition handle_book_appointment :: "pystr \<Rightarrow> ctx \<Rightarrow> pystr" where
  "handle_book_appointment txt c =
     str_lit ''I can help book an appointment. Which date/time and specialty do you prefer? ''
     @ str_lit ''Example: 'GP tomorrow morning' or 'Dermatology Nov 6 3pm'.''"

definition handle_greeting :: "pystr \<Rightarrow> ctx \<Rightarrow> pystr" where
  "handle_greeting txt c =
     str_lit ''Hello! I can help with mobile network support, account queries, or basic health triage. How can I help today?''"

text \<open>The dash of this reply is the em dash, U+2014.\<close>

definition handle_thanks :: "pystr \<Rightarrow> ctx \<Rightarrow> pystr" where
  "handle_thanks txt c =
     str_lit ''You're welcome '' @ [8212] @ str_lit '' anything else I can help with?''"

definition handle_fallback :: "pystr \<Rightarrow> ctx \<Rightarrow> pystr" where
  "handle_fallback txt c =
     str_lit ''Sorry, I didn't quite get that. Could you rephrase? ''
     @ str_lit ''You can ask about 'network issue', 'check my balance', or 'I have a fever'.''"

definition INTENT_HANDLERS :: "unicode_db \<Rightarrow> (pystr \<times> (pystr \<Rightarrow> ctx \<Rightarrow> pystr)) list" where
  "INTENT_HANDLERS U =
     [(str_lit ''network_issue'', handle_network_issue U),
      (str_lit ''account_query'', handle_account_query),
      (str_lit ''symptom_check'', handle_symptom_check U),
      (str_lit ''book_appointment'', handle_book_appointment),
      (str_lit ''greeting'', handle_greeting),
      (str_lit ''thanks'', handle_thanks),
      (str_lit ''fallback'', handle_fallback)]"

text \<open>
  \<open>INTENT_HANDLERS.get(label, handle_fallback)\<close>, the lookup of \<open>respond\<close>; applied to
  the message and the context it is the dispatch of the specification.
\<close>

definition get_handler :: "unicode_db \<Rightarrow> pystr \<Rightarrow> (pystr \<Rightarrow> ctx \<Rightarrow> pystr)" where
  "get_handler U l = (case map_of (INTENT_HANDLERS U) l of Some h \<Rightarrow> h | None \<Rightarrow> handle_fallback)"

section \<open>The message log and the clock\<close>

text \<open>
  One row of the table \<open>messages\<close>.  The world holds the table, the counter behind
  \<open>AUTOINCREMENT\<close>, and what the environment will answer: the text that the \<open>n\<close>-th
  reading of \<open>datetime.utcnow().isoformat()\<close> returns, and whether the \<open>n\<close>-th insert
  is rejected by SQLite.
\<close>

record message_row =
  row_id :: nat
  row_session_id :: pystr
  row_role :: pystr
  row_message :: pystr
  row_timestamp :: pystr

record world =
  messages :: "message_row list"
  autoincrement :: nat
  clock :: nat
  inserts :: nat
  utc_at :: "nat \<Rightarrow> pystr"
  insert_fails :: "nat \<Rightarrow> bool"

definition utcnow :: "world \<Rightarrow> pystr \<times> world" where
  "utcnow w = (utc_at w (clock w), w\<lparr>clock := clock w + 1\<rparr>)"

text \<open>
  \<open>log_message\<close>: the time is read while the arguments of \<open>execute\<close> are evaluated; an
  insert that SQLite rejects raises and leaves the table as it was.
\<close>

definition log_message :: "pystr \<Rightarrow> pystr \<Rightarrow> pystr \<Rightarrow> world \<Rightarrow> (error + unit) \<times> world" where
  "log_message session_id role message w =
     (let (now, w1) = utcnow w;
          w2 = w1\<lparr>inserts := inserts w1 + 1\<rparr>
      in if insert_fails w (inserts w) then (Inl DatabaseError, w2)
         else (Inr (),
               w2\<lparr>messages := messages w2 @
                      [\<lparr>row_id = autoincrement w2 + 1, row_session_id = session_id,
                        row_role = role, row_message = message, row_timestamp = now\<rparr>],
                   autoincrement := autoincrement w2 + 1\<rparr>))"

section \<open>The conversation engine\<close>

record envelope =
  reply :: pystr
  env_intent :: intent_info
  timestamp :: pystr

text \<open>
  \<open>respond\<close>; the optional context is \<open>None\<close> when the caller omits it.  An exception of
  \<open>log_message\<close> ends the call; the world keeps what was written before.
\<close>

definition respond :: "unicode_db \<Rightarrow> pystr \<Rightarrow> pystr \<Rightarrow> ctx option \<Rightarrow> world \<Rightarrow> (error + envelope) \<times> world" where
  "respond U message session_id c w =
     (let c' = (case c of None \<Rightarrow> [] | Some d \<Rightarrow> d) in
      case log_message session_id (str_lit ''user'') message w of
        (Inl e, w1) \<Rightarrow> (Inl e, w1)
      | (Inr u, w1) \<Rightarrow>
          (let i = detect_intent U message;
               handler = get_handler U (intent i);
               r = handler message c'
           in case log_message session_id (str_lit ''bot'') r w1 of
                (Inl e, w2) \<Rightarrow> (Inl e, w2)
              | (Inr u', w2) \<Rightarrow>
                  (let (now, w3) = utcnow w2
                   in (Inr \<lparr>reply = r, env_intent = i, timestamp = now\<rparr>, w3))))"

section \<open>The session registry\<close>

text \<open>
  A \<open>WebSocket\<close> object is an opaque handle.  Beside the dictionary
  \<open>active_connections\<close> of the \<open>ConnectionManager\<close>, the state records what the
  manager did to the sockets: the handshakes it completed and the frames it sent.  Whether
  an awaited \<open>accept\<close> or \<open>send_text\<close> completes or raises is decided by the peer, and
  is an argument of the operation.
\<close>

type_synonym websocket = nat

record registry =
  active_connections :: "(pystr \<times> websocket) list"
  accepted :: "websocket list"
  sent :: "(websocket \<times> pystr) list"

definition ConnectionManager_init :: registry where
  "ConnectionManager_init = \<lparr>active_connections = [], accepted = [], sent = []\<rparr>"

definition connect :: "bool \<Rightarrow> websocket \<Rightarrow> pystr \<Rightarrow> registry \<Rightarrow> (error + unit) \<times> registry" where
  "connect accept_ok ws session_id r =
     (if \<not> accept_ok then (Inl ConnectionError, r)
      else (Inr (),
            r\<lparr>accepted := accepted r @ [ws],
              active_connections := dict_set (active_connections r) session_id ws\<rparr>))"

definition disconnect :: "pystr \<Rightarrow> registry \<Rightarrow> registry" where
  "disconnect session_id r =
     r\<lparr>active_connections := dict_pop (active_connections r) session_id\<rparr>"

text \<open>
  \<open>send_personal_message\<close> has no \<open>return\<close> statement: a call that does not raise
  returns \<open>None\<close>.  A \<open>WebSocket\<close> object is true in a condition, so \<open>if ws:\<close> tests
  that the lookup found a handle.
\<close>

definition send_personal_message :: "bool \<Rightarrow> pystr \<Rightarrow> pystr \<Rightarrow> registry \<Rightarrow> (error + pyval) \<times> registry" where
  "send_personal_message send_ok message session_id r =
     (case map_of (active_connections r) session_id of
        None \<Rightarrow> (Inr PNone, r)
      | Some ws \<Rightarrow>
          (if send_ok then (Inr PNone, r\<lparr>sent := sent r @ [(ws, message)]\<rparr>)
           else (Inl ConnectionError, r)))"

text \<open>Sequences of registry operations; an operation that raises leaves the state it reached.\<close>

datatype registry_op =
  Connect bool websocket pystr
  | Disconnect pystr
  | Send bool pystr pystr

fun apply_op :: "registry_op \<Rightarrow> registry \<Rightarrow> registry" where
  "apply_op (Connect ok ws sid) r = snd (connect ok ws sid r)"
| "apply_op (Disconnect sid) r = disconnect sid r"
| "apply_op (Send ok message sid) r = snd (send_personal_message ok message sid r)"

fun run_ops :: "registry_op list \<Rightarrow> registry \<Rightarrow> registry" where
  "run_ops [] r = r"
| "run_ops (x # xs) r = run_ops xs (apply_op x r)"

section \<open>Inbound frames of the stream\<close>

text \<open>
  \<open>payload.get("message", "")\<close>: only a dictionary has the attribute \<open>get\<close>.
\<close>

definition payload_get :: "pyval \<Rightarrow> pystr \<Rightarrow> pyval \<Rightarrow> error + pyval" where
  "payload_get payload k dflt =
     (case payload of
        PDict d \<Rightarrow> Inr (case map_of d k of Some v \<Rightarrow> v | None \<Rightarrow> dflt)
      | _ \<Rightarrow> Inl AttributeError)"

text \<open>
  The body of the receive loop of \<open>websocket_endpoint\<close> up to the call of \<open>respond\<close>.
  \<open>json.loads\<close> belongs to the standard library: its outcome on the frame, a value or an
  exception, is the argument \<open>parsed\<close>.  \<open>except Exception\<close> catches whatever the two
  statements of the \<open>try\<close> block raise.
\<close>

definition frame_message :: "pystr \<Rightarrow> error + pyval \<Rightarrow> pyval" where
  "frame_message data parsed =
     (case parsed of
        Inl e \<Rightarrow> PStr data
      | Inr payload \<Rightarrow>
          (case payload_get payload (str_lit ''message'') (PStr []) of
             Inl e \<Rightarrow> PStr data
           | Inr message \<Rightarrow> message))"

section \<open>Concrete environments\<close>

text \<open>
  For the concrete examples: a Unicode database that is consulted for no ASCII code point
  (the examples are ASCII throughout), and a world with an empty table, a clock that
  answers \<open>2025-11-04T00:00:00\<close>, \<open>...:01\<close>, \<open>...:02\<close> and a database that accepts every
  insert.
\<close>

definition ascii_db :: unicode_db where
  "ascii_db = \<lparr>tolower_full = (\<lambda>s i. [s ! i]), isalnum = (\<lambda>c. False)\<rparr>"

definition fresh_world :: world where
  "fresh_world =
     \<lparr>messages = [], autoincrement = 0, clock = 0, inserts = 0,
      utc_at = (\<lambda>n. str_lit ''2025-11-04T00:00:0'' @ [48 + n]),
      insert_fails = (\<lambda>n. False)\<rparr>"

section \<open>A necessary condition for a match\<close>

text \<open>
  A pattern can match somewhere in a text only if, along some alternative, every literal
  is made of characters that occur in the text.  The condition depends on the set of
  characters of the text alone, and decides the examples in which no rule matches.
\<close>

fun feasible :: "regex \<Rightarrow> pystr \<Rightarrow> bool" where
  "feasible (Lit w) s = list_all (\<lambda>c. c \<in> set s) w"
| "feasible (Chars cs) s = True"
| "feasible WordB s = True"
| "feasible (Alt rs) s = list_ex (\<lambda>r. feasible r s) rs"
| "feasible (Seq rs) s = list_all (\<lambda>r. feasible r s) rs"

section \<open>Text literals\<close>

lemma str_lit_eq_iff [simp]: "str_lit a = str_lit b \<longleftrightarrow> a = b"
  by (simp add: str_lit_def inj_on_def)

lemma str_lit_Nil_iff [simp]: "str_lit a = [] \<longleftrightarrow> a = []"
  by (simp add: str_lit_def)

section \<open>Matching\<close>

lemma match_ends_feasible: "match_ends U r s i \<noteq> [] \<Longrightarrow> feasible r s"
proof (induction U r s i rule: match_ends.induct)
  case (1 U w s i)
  then have "take (length w) (drop i s) = w"
    by (simp split: if_splits)
  then have "set w \<subseteq> set (drop i s)"
    by (metis set_take_subset)
  then have "set w \<subseteq> set s"
    using set_drop_subset by fastforce
  then show ?case
    by (auto simp: list_all_iff)
next
  case (4 U rs s i)
  then obtain r where "r \<in> set rs" "match_ends U r s i \<noteq> []"
    by auto
  with 4 show ?case
    by (auto simp: list_ex_iff)
next
  case (6 U r rs s i)
  from "6.prems" obtain j where j: "j \<in> set (match_ends U r s i)" "match_ends U (Seq rs) s j \<noteq> []"
    by auto
  then have "match_ends U r s i \<noteq> []"
    by auto
  with 6 j show ?case
    by (auto simp: list_all_iff)
qed simp_all

lemma re_search_feasible: "re_search U r s \<Longrightarrow> feasible r s"
  by (auto simp: re_search_def list_ex_iff dest: match_ends_feasible)

lemma feasible_mono: "feasible r t \<Longrightarrow> set t \<subseteq> set s \<Longrightarrow> feasible r s"
  by (induction r t rule: feasible.induct) (auto simp: list_all_iff list_ex_iff)

lemma set_strip: "set (strip s) \<subseteq> set s"
  by (auto simp: strip_def dest!: set_dropWhileD)

text \<open>Lower-casing leaves a text of ASCII characters without capitals as it is.\<close>

lemma lower_ascii_lowercase:
  assumes "\<forall>c\<in>set s. c < 128 \<and> \<not> (65 \<le> c \<and> c \<le> 90)"
  shows "lower U s = s"
proof -
  have "map (lower_at U s) [0..<length s] = map (\<lambda>i. [s ! i]) [0..<length s]"
    using assms by (auto simp: lower_at_def ascii_lower_def)
  then have "lower U s = concat (map (\<lambda>i. [s ! i]) [0..<length s])"
    by (simp only: lower_def)
  also have "\<dots> = map ((!) s) [0..<length s]"
    by (rule concat_map_singleton)
  also have "\<dots> = s"
    by (rule map_nth)
  finally show ?thesis .
qed

lemma no_match:
  assumes "\<forall>c\<in>set s. c < 128 \<and> \<not> (65 \<le> c \<and> c \<le> 90)" and "\<not> feasible r s"
  shows "\<not> re_search U r (strip (lower U s))"
proof
  assume "re_search U r (strip (lower U s))"
  then have "feasible r (strip (lower U s))"
    by (rule re_search_feasible)
  then have "feasible r s"
    using set_strip [of "lower U s"] by (simp add: feasible_mono lower_ascii_lowercase [OF assms(1)])
  with assms(2) show False by simp
qed

subsection \<open>The text \<open>xyz nonsense qqq\<close>\<close>

lemma xyz_codepoints:
  "str_lit ''xyz nonsense qqq'' =
     [120, 121, 122, 32, 110, 111, 110, 115, 101, 110, 115, 101, 32, 113, 113, 113]"
  by (simp add: str_lit_def)

lemma xyz_lowercase:
  "\<forall>c\<in>set (str_lit ''xyz nonsense qqq''). c < 128 \<and> \<not> (65 \<le> c \<and> c \<le> 90)"
  by (simp add: xyz_codepoints)

lemma xyz_infeasible:
  "\<not> feasible network_re (str_lit ''xyz nonsense qqq'')"
  "\<not> feasible account_re (str_lit ''xyz nonsense qqq'')"
  "\<not> feasible symptom_re (str_lit ''xyz nonsense qqq'')"
  "\<not> feasible appointment_re (str_lit ''xyz nonsense qqq'')"
  "\<not> feasible greeting_re (str_lit ''xyz nonsense qqq'')"
  "\<not> feasible thanks_re (str_lit ''xyz nonsense qqq'')"
  unfolding xyz_codepoints
  by (simp_all add: network_re_def account_re_def symptom_re_def appointment_re_def
      greeting_re_def thanks_re_def words_def str_lit_def)

lemma detect_intent_xyz:
  "detect_intent U (str_lit ''xyz nonsense qqq'') =
     \<lparr>intent = str_lit ''fallback'', confidence = 1 / 2\<rparr>"
  by (simp add: detect_intent_def Let_def no_match [OF xyz_lowercase] xyz_infeasible)

section \<open>The intent classifier\<close>

text \<open>
  Claim C5.  For every input text, the empty one included, \<open>detect_intent\<close> returns one
  intent whose label is one of the six labels of the rules or \<open>fallback\<close> and whose
  confidence lies between 0 and 1.  The function is total and depends on its argument
  only (and on the Unicode tables of the interpreter).
\<close>

theorem detect_intent_label_confidence:
  "intent (detect_intent U txt) \<in> set (map str_lit [''network_issue'', ''account_query'',
       ''symptom_check'', ''book_appointment'', ''greeting'', ''thanks'', ''fallback''])
   \<and> 0 \<le> confidence (detect_intent U txt) \<and> confidence (detect_intent U txt) \<le> 1"
  by (simp add: detect_intent_def Let_def)

text \<open>
  Claim C6.  \<open>detect_intent\<close> is the first-match evaluation of the ordered rule table on
  the lower-cased, trimmed input, with \<open>fallback\<close> at confidence 0.5 when no rule matches;
  on \<open>xyz nonsense qqq\<close> it returns \<open>fallback\<close> with confidence 0.5.
\<close>

theorem detect_intent_first_match:
  "detect_intent U txt = classify_spec U txt
   \<and> detect_intent U (str_lit ''xyz nonsense qqq'') =
       \<lparr>intent = str_lit ''fallback'', confidence = 5 / 10\<rparr>"
  by (simp add: detect_intent_xyz) (simp add: detect_intent_def classify_spec_def rules_def Let_def)

section \<open>The dispatcher\<close>

lemma handlers_nonempty:
  "handle_network_issue U m c \<noteq> []" "handle_account_query m c \<noteq> []"
  "handle_symptom_check U m c \<noteq> []" "handle_book_appointment m c \<noteq> []"
  "handle_greeting m c \<noteq> []" "handle_thanks m c \<noteq> []" "handle_fallback m c \<noteq> []"
  by (simp_all add: handle_network_issue_def handle_account_query_def handle_symptom_check_def
      handle_book_appointment_def handle_greeting_def handle_thanks_def handle_fallback_def)

lemma get_handler_cases:
  "get_handler U l \<in> {handle_network_issue U, handle_account_query, handle_symptom_check U,
     handle_book_appointment, handle_greeting, handle_thanks, handle_fallback}"
  by (simp add: get_handler_def INTENT_HANDLERS_def)

lemma get_handler_ctx: "get_handler U l m c1 = get_handler U l m c2"
  using get_handler_cases [of U l]
  by (auto simp: handle_network_issue_def handle_account_query_def handle_symptom_check_def
      handle_book_appointment_def handle_greeting_def handle_thanks_def handle_fallback_def)

text \<open>
  Claim C7.  For every label, message and context the handler that the lookup selects
  returns a non-empty reply, and a label that is no key of \<open>INTENT_HANDLERS\<close> gives the
  reply of \<open>handle_fallback\<close>.
\<close>

theorem dispatch_total_nonempty:
  "get_handler U l m c \<noteq> [] \<and>
   (l \<notin> fst ` set (INTENT_HANDLERS U) \<longrightarrow> get_handler U l m c = handle_fallback m c)"
proof
  show "get_handler U l m c \<noteq> []"
    using get_handler_cases [of U l] handlers_nonempty by auto
  show "l \<notin> fst ` set (INTENT_HANDLERS U) \<longrightarrow> get_handler U l m c = handle_fallback m c"
    by (simp add: get_handler_def map_of_eq_None_iff [THEN iffD2])
qed

theorem dispatch_total_nonempty_witness:
  "str_lit ''weather'' \<notin> fst ` set (INTENT_HANDLERS ascii_db)
   \<and> get_handler ascii_db (str_lit ''weather'') (str_lit ''rain?'') [] \<noteq> []
   \<and> get_handler ascii_db (str_lit ''weather'') (str_lit ''rain?'') []
       = handle_fallback (str_lit ''rain?'') []"
  using dispatch_total_nonempty [of ascii_db "str_lit ''weather''" "str_lit ''rain?''" "[]"]
  by (auto simp: INTENT_HANDLERS_def)

text \<open>
  Claim C9.  The label that \<open>detect_intent\<close> returns is a key of \<open>INTENT_HANDLERS\<close>: the
  lookup of \<open>respond\<close> finds a handler and never takes its default.
\<close>

theorem detect_intent_label_registered:
  "intent (detect_intent U txt) \<in> fst ` set (INTENT_HANDLERS U)
   \<and> map_of (INTENT_HANDLERS U) (intent (detect_intent U txt)) \<noteq> None"
  by (simp add: detect_intent_def Let_def INTENT_HANDLERS_def)

section \<open>The conversation engine\<close>

lemma log_message_Inr:
  "log_message sid role m w = (Inr u, w1) \<Longrightarrow>
     \<not> insert_fails w (inserts w) \<and>
     w1 = w\<lparr>clock := clock w + 1, inserts := inserts w + 1,
            messages := messages w @ [\<lparr>row_id = autoincrement w + 1, row_session_id = sid,
               row_role = role, row_message = m, row_timestamp = utc_at w (clock w)\<rparr>],
            autoincrement := autoincrement w + 1\<rparr>"
  by (simp add: log_message_def utcnow_def Let_def split: if_splits)

text \<open>
  Claim C1.  A call of \<open>respond\<close> that returns an envelope has appended exactly two rows
  to the table, both for the given session: first a \<open>user\<close> row with the message, then a
  \<open>bot\<close> row whose text is the \<open>reply\<close> of the envelope.  The envelope holds that reply
  (the output of the selected handler), the intent that \<open>detect_intent\<close> gave, and a
  timestamp (the third reading of the clock).
\<close>

theorem respond_logs_user_then_bot:
  assumes "respond U message sid c w = (Inr e, w')"
  shows "messages w' = messages w @
      [\<lparr>row_id = autoincrement w + 1, row_session_id = sid, row_role = str_lit ''user'',
        row_message = message, row_timestamp = utc_at w (clock w)\<rparr>,
       \<lparr>row_id = autoincrement w + 2, row_session_id = sid, row_role = str_lit ''bot'',
        row_message = reply e, row_timestamp = utc_at w (clock w + 1)\<rparr>]
    \<and> reply e = get_handler U (intent (detect_intent U message)) message
                  (case c of None \<Rightarrow> [] | Some d \<Rightarrow> d)
    \<and> env_intent e = detect_intent U message
    \<and> timestamp e = utc_at w (clock w + 2)"
proof -
  define r where "r = get_handler U (intent (detect_intent U message)) message
    (case c of None \<Rightarrow> [] | Some d \<Rightarrow> d)"
  obtain o1 w1 where l1: "log_message sid (str_lit ''user'') message w = (o1, w1)"
    by (cases "log_message sid (str_lit ''user'') message w")
  obtain o2 w2 where l2: "log_message sid (str_lit ''bot'') r w1 = (o2, w2)"
    by (cases "log_message sid (str_lit ''bot'') r w1")
  from assms l1 obtain u1 where o1: "o1 = Inr u1"
    by (cases o1) (simp_all add: respond_def)
  from assms l1 l2 o1 obtain u2 where o2: "o2 = Inr u2"
    by (cases o2) (simp_all add: respond_def Let_def r_def)
  from assms l1 l2 o1 o2
  have e: "e = \<lparr>reply = r, env_intent = detect_intent U message, timestamp = utc_at w2 (clock w2)\<rparr>"
    and w': "w' = w2\<lparr>clock := clock w2 + 1\<rparr>"
    by (simp_all add: respond_def Let_def r_def utcnow_def)
  note s1 = log_message_Inr [OF l1 [unfolded o1]]
  note s2 = log_message_Inr [OF l2 [unfolded o2]]
  have m: "messages w' = messages w @
      [\<lparr>row_id = autoincrement w + 1, row_session_id = sid, row_role = str_lit ''user'',
        row_message = message, row_timestamp = utc_at w (clock w)\<rparr>,
       \<lparr>row_id = autoincrement w + 2, row_session_id = sid, row_role = str_lit ''bot'',
        row_message = r, row_timestamp = utc_at w (clock w + 1)\<rparr>]"
    using s1 s2 by (simp add: w')
  have t: "timestamp e = utc_at w (clock w + 2)"
    using s1 s2 by (simp add: e)
  from m t show ?thesis
    by (simp add: e r_def)
qed

lemma clock_texts:
  "str_lit ''2025-11-04T00:00:0'' @ [48] = str_lit ''2025-11-04T00:00:00''"
  "str_lit ''2025-11-04T00:00:0'' @ [49] = str_lit ''2025-11-04T00:00:01''"
  "str_lit ''2025-11-04T00:00:0'' @ [50] = str_lit ''2025-11-04T00:00:02''"
  by (simp_all add: str_lit_def)

lemma respond_fresh_world:
  "respond ascii_db (str_lit ''xyz nonsense qqq'') (str_lit ''s1'') None fresh_world =
     (Inr \<lparr>reply = handle_fallback (str_lit ''xyz nonsense qqq'') [],
           env_intent = \<lparr>intent = str_lit ''fallback'', confidence = 1 / 2\<rparr>,
           timestamp = str_lit ''2025-11-04T00:00:02''\<rparr>,
      fresh_world\<lparr>messages :=
          [\<lparr>row_id = 1, row_session_id = str_lit ''s1'', row_role = str_lit ''user'',
            row_message = str_lit ''xyz nonsense qqq'',
            row_timestamp = str_lit ''2025-11-04T00:00:00''\<rparr>,
           \<lparr>row_id = 2, row_session_id = str_lit ''s1'', row_role = str_lit ''bot'',
            row_message = handle_fallback (str_lit ''xyz nonsense qqq'') [],
            row_timestamp = str_lit ''2025-11-04T00:00:01''\<rparr>],
        autoincrement := 2, clock := 3, inserts := 2\<rparr>)"
  by (simp add: respond_def log_message_def utcnow_def Let_def detect_intent_xyz get_handler_def
      INTENT_HANDLERS_def fresh_world_def clock_texts)

theorem respond_logs_user_then_bot_witness:
  "fst (respond ascii_db (str_lit ''xyz nonsense qqq'') (str_lit ''s1'') None fresh_world) =
     Inr \<lparr>reply = handle_fallback (str_lit ''xyz nonsense qqq'') [],
          env_intent = \<lparr>intent = str_lit ''fallback'', confidence = 1 / 2\<rparr>,
          timestamp = str_lit ''2025-11-04T00:00:02''\<rparr>
   \<and> messages (snd (respond ascii_db (str_lit ''xyz nonsense qqq'') (str_lit ''s1'') None fresh_world)) =
     [\<lparr>row_id = 1, row_session_id = str_lit ''s1'', row_role = str_lit ''user'',
       row_message = str_lit ''xyz nonsense qqq'',
       row_timestamp = str_lit ''2025-11-04T00:00:00''\<rparr>,
      \<lparr>row_id = 2, row_session_id = str_lit ''s1'', row_role = str_lit ''bot'',
       row_message = handle_fallback (str_lit ''xyz nonsense qqq'') [],
       row_timestamp = str_lit ''2025-11-04T00:00:01''\<rparr>]"
  using respond_logs_user_then_bot [OF respond_fresh_world]
  by (simp add: respond_fresh_world)

text \<open>
  Claim C10.  The result of \<open>respond\<close> does not depend on the context: two calls that
  differ in the context only, an omitted context included, return the same envelope (the
  same reply and the same intent) and leave the same world.
\<close>

theorem respond_ignores_context:
  "respond U message sid c1 w = respond U message sid c2 w"
proof -
  have h: "get_handler U l message (case c1 of None \<Rightarrow> [] | Some d \<Rightarrow> d)
         = get_handler U l message (case c2 of None \<Rightarrow> [] | Some d \<Rightarrow> d)" for l
    by (rule get_handler_ctx)
  show ?thesis
    unfolding respond_def Let_def h ..
qed

section \<open>The session registry\<close>

lemma fst_dict_set:
  "map fst (dict_set d k v) = (if k \<in> fst ` set d then map fst d else map fst d @ [k])"
  by (induction d) (auto simp: rev_image_eqI)

lemma distinct_dict_set: "distinct (map fst d) \<Longrightarrow> distinct (map fst (dict_set d k v))"
  by (simp add: fst_dict_set)

lemma map_of_dict_set: "map_of (dict_set d k v) = (map_of d)(k \<mapsto> v)"
  by (induction d) auto

lemma dict_pop_filter: "dict_pop d k = filter (\<lambda>p. fst p \<noteq> k) d"
  by (induction d) auto

lemma dict_pop_idem: "dict_pop (dict_pop d k) k = dict_pop d k"
  by (simp add: dict_pop_filter)

lemma distinct_dict_pop: "distinct (map fst d) \<Longrightarrow> distinct (map fst (dict_pop d k))"
  by (simp add: dict_pop_filter distinct_map_filter)

lemma dict_pop_absent: "k \<notin> fst ` set d \<Longrightarrow> dict_pop d k = d"
  by (induction d) auto

text \<open>In a dictionary without duplicate keys, the entries of a key are the one that the lookup finds.\<close>

lemma filter_key_distinct:
  "distinct (map fst d) \<Longrightarrow> map_of d k = Some v \<Longrightarrow> filter (\<lambda>p. fst p = k) d = [(k, v)]"
proof (induction d)
  case Nil
  then show ?case by simp
next
  case (Cons p d)
  show ?case
  proof (cases "fst p = k")
    case True
    from Cons.prems have "fst p \<notin> fst ` set d" by simp
    with True have "\<forall>x\<in>set d. fst x \<noteq> k" by blast
    then have "filter (\<lambda>p. fst p = k) d = []"
      by (simp add: filter_empty_conv)
    with True Cons.prems show ?thesis by (cases p) auto
  next
    case False
    with Cons show ?thesis by (cases p) auto
  qed
qed

lemma apply_op_distinct:
  "distinct (map fst (active_connections r)) \<Longrightarrow>
   distinct (map fst (active_connections (apply_op x r)))"
  by (cases x) (auto simp: connect_def disconnect_def send_personal_message_def
      distinct_dict_set distinct_dict_pop split: option.splits)

lemma run_ops_distinct:
  "distinct (map fst (active_connections r)) \<Longrightarrow>
   distinct (map fst (active_connections (run_ops xs r)))"
  by (induction xs arbitrary: r) (auto simp: apply_op_distinct)

text \<open>
  Claim C4.  In every state that a sequence of connect, disconnect and send operations
  reaches from the empty registry, no session id has more than one entry.  From any such
  state, two completed connects with the same session id leave exactly one entry for that
  id, with the handle of the second connect, and a disconnect of that id then leaves no
  entry for it.
\<close>

theorem registry_one_handle_per_session:
  "distinct (map fst (active_connections (run_ops xs ConnectionManager_init))) \<and>
   filter (\<lambda>p. fst p = sid)
     (active_connections (snd (connect True ws2 sid (snd (connect True ws1 sid
        (run_ops xs ConnectionManager_init))))))
     = [(sid, ws2)] \<and>
   sid \<notin> fst ` set (active_connections (disconnect sid
       (snd (connect True ws2 sid (snd (connect True ws1 sid
          (run_ops xs ConnectionManager_init)))))))"
proof -
  define r where "r = run_ops xs ConnectionManager_init"
  have d: "distinct (map fst (active_connections r))"
    unfolding r_def by (rule run_ops_distinct) (simp add: ConnectionManager_init_def)
  define conns where "conns = dict_set (dict_set (active_connections r) sid ws1) sid ws2"
  have d2: "distinct (map fst conns)"
    unfolding conns_def by (intro distinct_dict_set d)
  have m: "map_of conns sid = Some ws2"
    by (simp add: conns_def map_of_dict_set)
  have a: "active_connections (snd (connect True ws2 sid (snd (connect True ws1 sid r)))) = conns"
    by (simp add: connect_def conns_def)
  have f: "filter (\<lambda>p. fst p = sid) conns = [(sid, ws2)]"
    using d2 m by (rule filter_key_distinct)
  have p: "sid \<notin> fst ` set (dict_pop conns sid)"
    by (auto simp: dict_pop_filter)
  have "active_connections (disconnect sid (snd (connect True ws2 sid (snd (connect True ws1 sid r)))))
      = dict_pop conns sid"
    by (simp add: disconnect_def a)
  with d a f p show ?thesis
    unfolding r_def by simp
qed

text \<open>
  Claim C8.  \<open>disconnect\<close> is idempotent: a second disconnect of the same session id
  leaves the registry as the first one left it, and a disconnect of a session id that has
  no entry leaves the registry as it was.  \<open>disconnect\<close> has no failing branch.
\<close>

theorem disconnect_idempotent:
  "disconnect sid (disconnect sid r) = disconnect sid r \<and>
   (sid \<notin> fst ` set (active_connections r) \<longrightarrow> disconnect sid r = r)"
  by (simp add: disconnect_def dict_pop_idem dict_pop_absent)

theorem disconnect_idempotent_witness:
  "str_lit ''s2'' \<notin> fst ` set (active_connections
       (snd (connect True 7 (str_lit ''s1'') ConnectionManager_init)))
   \<and> disconnect (str_lit ''s2'') (snd (connect True 7 (str_lit ''s1'') ConnectionManager_init))
       = snd (connect True 7 (str_lit ''s1'') ConnectionManager_init)
   \<and> disconnect (str_lit ''s1'') (disconnect (str_lit ''s1'')
         (snd (connect True 7 (str_lit ''s1'') ConnectionManager_init)))
       = disconnect (str_lit ''s1'') (snd (connect True 7 (str_lit ''s1'') ConnectionManager_init))"
  using disconnect_idempotent [of "str_lit ''s2''" "snd (connect True 7 (str_lit ''s1'') ConnectionManager_init)"]
    disconnect_idempotent [of "str_lit ''s1''" "snd (connect True 7 (str_lit ''s1'') ConnectionManager_init)"]
  by (auto simp: connect_def ConnectionManager_init_def)

text \<open>
  Claim C2, as the code has it.  \<open>send_personal_message\<close> returns no boolean: a call that
  does not raise returns \<open>None\<close>.  For a session id with no registered handle the call
  changes nothing and does not raise, whatever the peer would do; for a session id with a
  registered handle the payload is sent to that handle (and the call raises only when the
  socket's \<open>send_text\<close> does).
\<close>

theorem send_personal_message_effect:
  "(map_of (active_connections r) sid = None \<longrightarrow>
      send_personal_message ok m sid r = (Inr PNone, r)) \<and>
   (map_of (active_connections r) sid = Some ws \<longrightarrow>
      send_personal_message True m sid r = (Inr PNone, r\<lparr>sent := sent r @ [(ws, m)]\<rparr>)) \<and>
   fst (send_personal_message ok m sid r) \<noteq> Inr (PBool b)"
  by (simp add: send_personal_message_def split: option.splits)

theorem send_personal_message_effect_witness:
  "map_of (active_connections ConnectionManager_init) (str_lit ''s1'') = None
   \<and> send_personal_message True (str_lit ''hello'') (str_lit ''s1'') ConnectionManager_init
       = (Inr PNone, ConnectionManager_init)
   \<and> map_of (active_connections (snd (connect True 7 (str_lit ''s1'') ConnectionManager_init)))
        (str_lit ''s1'') = Some 7
   \<and> sent (snd (send_personal_message True (str_lit ''hello'') (str_lit ''s1'')
        (snd (connect True 7 (str_lit ''s1'') ConnectionManager_init))))
       = [(7, str_lit ''hello'')]"
  using send_personal_message_effect [of ConnectionManager_init "str_lit ''s1''" True "str_lit ''hello''" 7 True]
    send_personal_message_effect [of "snd (connect True 7 (str_lit ''s1'') ConnectionManager_init)"
      "str_lit ''s1''" True "str_lit ''hello''" 7 True]
  by (simp add: connect_def ConnectionManager_init_def)

text \<open>
  The claim as stated fails: with a handle registered for the session and the frame sent,
  the call returns \<open>None\<close>, not the boolean true.
\<close>

theorem send_returns_bool_counterexample:
  "map_of (active_connections (snd (connect True 7 (str_lit ''s1'') ConnectionManager_init)))
     (str_lit ''s1'') = Some 7
   \<and> fst (send_personal_message True (str_lit ''hello'') (str_lit ''s1'')
        (snd (connect True 7 (str_lit ''s1'') ConnectionManager_init))) = Inr PNone
   \<and> fst (send_personal_message True (str_lit ''hello'') (str_lit ''s1'')
        (snd (connect True 7 (str_lit ''s1'') ConnectionManager_init))) \<noteq> Inr (PBool True)"
  by (simp add: send_personal_message_def connect_def ConnectionManager_init_def)

section \<open>Inbound frames\<close>

text \<open>
  Claim C3, as the code has it.  When the frame parses as a JSON object, the message is the
  value of its \<open>message\<close> field, and the empty text when the object has no such field.  In
  every other case (the frame is no JSON, or parses as anything but an object) the message
  is the raw frame.  The function has no failing branch: no parse error leaves it.
\<close>

theorem frame_message_cases:
  "(parsed = Inr (PDict d) \<and> map_of d (str_lit ''message'') = Some v \<longrightarrow>
      frame_message data parsed = v) \<and>
   (parsed = Inr (PDict d) \<and> map_of d (str_lit ''message'') = None \<longrightarrow>
      frame_message data parsed = PStr []) \<and>
   ((\<forall>d'. parsed \<noteq> Inr (PDict d')) \<longrightarrow> frame_message data parsed = PStr data)"
proof (intro conjI impI)
  assume "parsed = Inr (PDict d) \<and> map_of d (str_lit ''message'') = Some v"
  then show "frame_message data parsed = v"
    by (simp add: frame_message_def payload_get_def)
next
  assume "parsed = Inr (PDict d) \<and> map_of d (str_lit ''message'') = None"
  then show "frame_message data parsed = PStr []"
    by (simp add: frame_message_def payload_get_def)
next
  assume n: "\<forall>d'. parsed \<noteq> Inr (PDict d')"
  show "frame_message data parsed = PStr data"
  proof (cases parsed)
    case (Inl e)
    then show ?thesis by (simp add: frame_message_def)
  next
    case (Inr payload)
    with n show ?thesis
      by (cases payload) (simp_all add: frame_message_def payload_get_def)
  qed
qed

text \<open>
  The frames \<open>{"message": "hi"}\<close>, \<open>{"text": "hi"}\<close>, \<open>hi\<close> (no JSON) and \<open>[1]\<close> (JSON, no
  object), each with the outcome of \<open>json.loads\<close> on it.
\<close>

theorem frame_message_cases_witness:
  "frame_message (str_lit ''{\"message\": \"hi\"}'')
      (Inr (PDict [(str_lit ''message'', PStr (str_lit ''hi''))])) = PStr (str_lit ''hi'')
   \<and> frame_message (str_lit ''{\"text\": \"hi\"}'')
      (Inr (PDict [(str_lit ''text'', PStr (str_lit ''hi''))])) = PStr []
   \<and> frame_message (str_lit ''hi'') (Inl JSONDecodeError) = PStr (str_lit ''hi'')
   \<and> frame_message (str_lit ''[1]'') (Inr (PList [PInt 1])) = PStr (str_lit ''[1]'')"
  using frame_message_cases [of "Inr (PDict [(str_lit ''message'', PStr (str_lit ''hi''))])"
      "[(str_lit ''message'', PStr (str_lit ''hi''))]" "PStr (str_lit ''hi'')"
      "str_lit ''{\"message\": \"hi\"}''"]
    frame_message_cases [of "Inr (PDict [(str_lit ''text'', PStr (str_lit ''hi''))])"
      "[(str_lit ''text'', PStr (str_lit ''hi''))]" "PNone" "str_lit ''{\"text\": \"hi\"}''"]
    frame_message_cases [of "Inl JSONDecodeError" "[]" "PNone" "str_lit ''hi''"]
    frame_message_cases [of "Inr (PList [PInt 1])" "[]" "PNone" "str_lit ''[1]''"]
  by simp

text \<open>
  The claim as stated fails on the frame \<open>{}\<close>: it parses as an object without a
  \<open>message\<close> field, and the message is the empty text, not the raw frame.
\<close>

theorem frame_without_message_counterexample:
  "frame_message (str_lit ''{}'') (Inr (PDict [])) = PStr []
   \<and> frame_message (str_lit ''{}'') (Inr (PDict [])) \<noteq> PStr (str_lit ''{}'')"
  by (simp add: frame_message_def payload_get_def str_lit_def)

end
